theory Spec2Isabelle
  imports Complex_Main
begin

section \<open>Data model of the canvas board\<close>

text \<open>
  The component \<open>CanvasBoard\<close> keeps its state in React hooks and refs. JavaScript
  numbers are modelled as reals: the properties below concern the control structure of
  the handlers (which branch runs, which list is produced), and every comparison is
  applied to the same arithmetic expression on both sides of a statement.
\<close>

text \<open>
  \<open>{ x: number; y: number }\<close>, and \<open>Pt\<close>, which extends it by pressure and time stamp.
  The fields \<open>x\<close>, \<open>y\<close> and \<open>t\<close> are written \<open>px\<close>, \<open>py\<close> and \<open>pt_t\<close>.
\<close>

record point =
  px :: real
  py :: real

record Pt = point +
  pressure :: real
  pt_t :: real

text \<open>\<open>type Tool = "select" | "draw" | "rectangle" | "circle" | "lasso"\<close>\<close>

datatype Tool = Tool_select | Tool_draw | Tool_rectangle | Tool_circle | Tool_lasso

text \<open>
  The objects of the drawing library, with the constructor arguments the board passes:
  \<open>new Rect({left, top, fill, width, height, rx, ry})\<close>,
  \<open>new Circle({left, top, fill, radius})\<close> and
  \<open>new FabricPath(pathData, {fill, selectable, objectCaching})\<close>.
  Objects are compared by reference in JavaScript, and two objects built from the same
  arguments are different objects; \<open>ref\<close> is that identity.
\<close>

datatype shape =
  Rect real real string real real real real
| Circle real real string real
| FabricPath string string bool bool

record fabric_object =
  ref :: nat
  shape :: shape

text \<open>
  \<open>interface Layer\<close> of the layer panel; the field \<open>id\<close> is written \<open>layer_id\<close> and
  \<open>name\<close> is written \<open>layer_name\<close>.
\<close>

record Layer =
  layer_id :: string
  layer_name :: string
  visible :: bool
  locked :: bool
  objects :: "fabric_object list"

text \<open>What \<open>setActiveObject\<close> was last given: one object, or an \<open>ActiveSelection\<close> of several.\<close>

datatype active = ActiveObject fabric_object | ActiveSelection "fabric_object list"

text \<open>
  The part of the library's canvas the board reads and writes: the object list behind
  \<open>getObjects()\<close>, \<open>add\<close>, \<open>remove\<close> and \<open>clear\<close>, and the active object.
\<close>

record FabricCanvas =
  fabric_objects :: "fabric_object list"
  activeObject :: "active option"

text \<open>
  The hooks and refs of \<open>CanvasBoard\<close>. \<open>fabricCanvasRef\<close> is \<open>None\<close> while the ref is
  null. \<open>next_ref\<close> is the identity that the next \<open>new\<close> object receives. The overlay's
  drawing context and the animation-frame handle only paint the preview and are left out.
\<close>

record board =
  tool :: Tool
  color :: string
  width :: real
  smoothing :: real
  zoom :: real
  panX :: real
  panY :: real
  isPanning :: bool
  layers :: "Layer list"
  activeLayerId :: string
  pointsRef :: "Pt list"
  drawingRef :: bool
  fabricCanvasRef :: "FabricCanvas option"
  next_ref :: nat

text \<open>The state after the first render and the effect that creates the canvas.\<close>

definition initial_board :: board where
  "initial_board =
     \<lparr>tool = Tool_draw, color = ''#3b82f6'', width = 6, smoothing = 0.6,
      zoom = 1, panX = 0, panY = 0, isPanning = False,
      layers = [\<lparr>layer_id = ''layer-1'', layer_name = ''Layer 1'', visible = True,
                 locked = False, objects = []\<rparr>],
      activeLayerId = ''layer-1'', pointsRef = [], drawingRef = False,
      fabricCanvasRef = Some \<lparr>fabric_objects = [], activeObject = None\<rparr>,
      next_ref = 0\<rparr>"

section \<open>Path data of a stroke outline\<close>

text \<open>
  \<open>getSvgPathFromStroke\<close>. \<open>toFixed\<close> is JavaScript's \<open>Number.prototype.toFixed\<close> and is
  a parameter. A point \<open>[x, y]\<close> of the outline is a pair. The callback of \<open>reduce\<close> is
  \<open>path_step\<close>; it receives the accumulator, the point with its index, and the array.
\<close>

definition path_step ::
  "(real \<Rightarrow> nat \<Rightarrow> string) \<Rightarrow> (real \<times> real) list \<Rightarrow> string \<Rightarrow> nat \<times> (real \<times> real) \<Rightarrow> string" where
  "path_step toFixed arr acc ip =
     (case ip of (i, (x0, y0)) \<Rightarrow>
        (case arr ! ((i + 1) mod length arr) of (x1, y1) \<Rightarrow>
           (let acc1 = acc @ (if i = 0 then ''M'' else ''L'') @ toFixed x0 2 @ '' '' @
                         toFixed y0 2 @ '' ''
            in if i = length arr - 1
               then acc1 @ ''L'' @ toFixed x1 2 @ '' '' @ toFixed y1 2 @ '' Z''
               else acc1)))"

definition getSvgPathFromStroke ::
  "(real \<Rightarrow> nat \<Rightarrow> string) \<Rightarrow> (real \<times> real) list \<Rightarrow> string" where
  "getSvgPathFromStroke toFixed points =
     (if length points = 0 then []
      else foldl (path_step toFixed points) [] (zip [0 ..< length points] points))"

section \<open>Lasso geometry\<close>

text \<open>
  The test of one loop iteration of \<open>isPointInPolygon\<close>, for the vertices
  \<open>polygon[i]\<close> and \<open>polygon[j]\<close>. The conjunction is short-circuit in the source, so
  the quotient is only formed when the two y-tests differ, hence with a non-zero divisor.
\<close>

definition edge_test :: "'a point_scheme \<Rightarrow> 'b point_scheme \<Rightarrow> 'b point_scheme \<Rightarrow> bool" where
  "edge_test p vi vj =
     (((py vi > py p) \<noteq> (py vj > py p)) \<and>
      (px p < (px vj - px vi) * (py p - py vi) / (py vj - py vi) + px vi))"

text \<open>
  The loop \<open>for (let i = 0, j = polygon.length - 1; i < polygon.length; j = i++)\<close>
  with the loop variables \<open>i\<close>, \<open>j\<close> and \<open>inside\<close>.
\<close>

function isPointInPolygon_loop ::
  "'a point_scheme \<Rightarrow> 'b point_scheme list \<Rightarrow> nat \<Rightarrow> nat \<Rightarrow> bool \<Rightarrow> bool" where
  "isPointInPolygon_loop p polygon i j inside =
     (if i < length polygon
      then isPointInPolygon_loop p polygon (Suc i) i
             (if edge_test p (polygon ! i) (polygon ! j) then \<not> inside else inside)
      else inside)"
  by pat_completeness auto
termination
  by (relation "measure (\<lambda>(p, polygon, i, j, inside). length polygon - i)") auto

declare isPointInPolygon_loop.simps [simp del]

text \<open>
  \<open>j\<close> starts at \<open>polygon.length - 1\<close>; for the empty polygon the body never runs and
  the start value of \<open>j\<close> is never read.
\<close>

definition isPointInPolygon :: "'a point_scheme \<Rightarrow> 'b point_scheme list \<Rightarrow> bool" where
  "isPointInPolygon p polygon =
     isPointInPolygon_loop p polygon 0 (length polygon - 1) False"







section \<open>Zoom\<close>

text \<open>
  The wheel handler is installed by an effect that returns early while the canvas ref is
  null. \<open>deltaY\<close> is the event's scroll amount.
\<close>

definition handleWheel :: "real \<Rightarrow> board \<Rightarrow> board" where
  "handleWheel deltaY b =
     (case fabricCanvasRef b of
        None \<Rightarrow> b
      | Some fabric \<Rightarrow>
          (let zoomStep = 0.1;
               newZoom = max 0.1 (min 5 (zoom b + (if deltaY > 0 then - zoomStep else zoomStep)))
           in b\<lparr>zoom := newZoom\<rparr>))"

definition handleZoomIn :: "board \<Rightarrow> board" where
  "handleZoomIn b = b\<lparr>zoom := min 5 (zoom b + 0.2)\<rparr>"

definition handleZoomOut :: "board \<Rightarrow> board" where
  "handleZoomOut b = b\<lparr>zoom := max 0.1 (zoom b - 0.2)\<rparr>"

definition handleResetView :: "board \<Rightarrow> board" where
  "handleResetView b = b\<lparr>zoom := 1, panX := 0, panY := 0\<rparr>"

definition handleFitToCanvas :: "board \<Rightarrow> board" where
  "handleFitToCanvas b =
     (case fabricCanvasRef b of
        None \<Rightarrow> b
      | Some fabric \<Rightarrow> b\<lparr>zoom := 1, panX := 0, panY := 0\<rparr>)"

text \<open>The operations that write the zoom, and a sequence of them.\<close>

datatype zoom_op = Wheel real | ZoomIn | ZoomOut | ResetView | FitToCanvas

fun zoom_step :: "zoom_op \<Rightarrow> board \<Rightarrow> board" where
  "zoom_step (Wheel deltaY) b = handleWheel deltaY b"
| "zoom_step ZoomIn b = handleZoomIn b"
| "zoom_step ZoomOut b = handleZoomOut b"
| "zoom_step ResetView b = handleResetView b"
| "zoom_step FitToCanvas b = handleFitToCanvas b"

fun zoom_run :: "zoom_op list \<Rightarrow> board \<Rightarrow> board" where
  "zoom_run [] b = b"
| "zoom_run (op # ops) b = zoom_run ops (zoom_step op b)"

section \<open>Layers\<close>

text \<open>Decimal digits of a number, as a template literal prints a non-negative integer.\<close>

fun string_of_nat :: "nat \<Rightarrow> string" where
  "string_of_nat n =
     (if n < 10 then [''0123456789'' ! n]
      else string_of_nat (n div 10) @ [''0123456789'' ! (n mod 10)])"

declare string_of_nat.simps [simp del]

definition handleLayerSelect :: "string \<Rightarrow> board \<Rightarrow> board" where
  "handleLayerSelect ident b = b\<lparr>activeLayerId := ident\<rparr>"

text \<open>\<open>now\<close> is the value of \<open>Date.now()\<close> at the call.\<close>

definition handleLayerAdd :: "nat \<Rightarrow> board \<Rightarrow> board" where
  "handleLayerAdd now b =
     (let newLayer = \<lparr>layer_id = ''layer-'' @ string_of_nat now,
                      layer_name = ''Layer '' @ string_of_nat (length (layers b) + 1),
                      visible = True, locked = False, objects = []\<rparr>
      in b\<lparr>layers := layers b @ [newLayer], activeLayerId := layer_id newLayer\<rparr>)"

text \<open>
  \<open>layers.find(l => l.id !== id)?.id || layers[0].id\<close>: the id found is used unless
  nothing is found or the id is the empty string, which is falsy.
\<close>

definition handleLayerDelete :: "string \<Rightarrow> board \<Rightarrow> board" where
  "handleLayerDelete ident b =
     (if length (layers b) \<le> 1 then b
      else b\<lparr>layers := filter (\<lambda>l. layer_id l \<noteq> ident) (layers b),
              activeLayerId :=
                (if activeLayerId b = ident
                 then (case find (\<lambda>l. layer_id l \<noteq> ident) (layers b) of
                         Some l \<Rightarrow> if layer_id l \<noteq> [] then layer_id l
                                   else layer_id (layers b ! 0)
                       | None \<Rightarrow> layer_id (layers b ! 0))
                 else activeLayerId b)\<rparr>)"

definition handleLayerToggleVisible :: "string \<Rightarrow> board \<Rightarrow> board" where
  "handleLayerToggleVisible ident b =
     b\<lparr>layers := map (\<lambda>l. if layer_id l = ident then l\<lparr>visible := \<not> visible l\<rparr> else l)
                     (layers b)\<rparr>"

definition handleLayerToggleLock :: "string \<Rightarrow> board \<Rightarrow> board" where
  "handleLayerToggleLock ident b =
     b\<lparr>layers := map (\<lambda>l. if layer_id l = ident then l\<lparr>locked := \<not> locked l\<rparr> else l)
                     (layers b)\<rparr>"

text \<open>
  \<open>handleLayerReorder\<close> copies the list, takes the entry at \<open>fromIndex\<close> out with
  \<open>splice(fromIndex, 1)\<close> and puts it back with \<open>splice(toIndex, 0, moved)\<close>; an insertion
  index beyond the end inserts at the end. When \<open>fromIndex\<close> is not an index of the list,
  nothing is taken out, \<open>moved\<close> is \<open>undefined\<close>, and the list receives an entry that is
  not a layer: the panel's next render reads \<open>layer.id\<close> of every entry and throws. That
  outcome is \<open>TypeError\<close>. The panel calls the handler with the index of a row and its
  neighbour (\<open>handleMoveUp\<close>, \<open>handleMoveDown\<close>), so the indices are natural numbers.
\<close>

datatype error = TypeError

definition handleLayerReorder :: "nat \<Rightarrow> nat \<Rightarrow> board \<Rightarrow> error + board" where
  "handleLayerReorder fromIndex toIndex b =
     (if fromIndex < length (layers b)
      then (let moved = layers b ! fromIndex;
                newLayers = take fromIndex (layers b) @ drop (Suc fromIndex) (layers b)
            in Inr (b\<lparr>layers := take toIndex newLayers @ [moved] @ drop toIndex newLayers\<rparr>))
      else Inl TypeError)"

text \<open>The layer operations of the panel, and a sequence of them that stops at an error.\<close>

datatype layer_op =
  LayerSelect string
| LayerAdd nat
| LayerDelete string
| LayerToggleVisible string
| LayerToggleLock string
| LayerReorder nat nat

fun layer_step :: "layer_op \<Rightarrow> board \<Rightarrow> error + board" where
  "layer_step (LayerSelect ident) b = Inr (handleLayerSelect ident b)"
| "layer_step (LayerAdd now) b = Inr (handleLayerAdd now b)"
| "layer_step (LayerDelete ident) b = Inr (handleLayerDelete ident b)"
| "layer_step (LayerToggleVisible ident) b = Inr (handleLayerToggleVisible ident b)"
| "layer_step (LayerToggleLock ident) b = Inr (handleLayerToggleLock ident b)"
| "layer_step (LayerReorder fromIndex toIndex) b = handleLayerReorder fromIndex toIndex b"

fun layer_run :: "layer_op list \<Rightarrow> board \<Rightarrow> error + board" where
  "layer_run [] b = Inr b"
| "layer_run (op # ops) b =
     (case layer_step op b of Inl e \<Rightarrow> Inl e | Inr b' \<Rightarrow> layer_run ops b')"

section \<open>The library's canvas\<close>

text \<open>
  \<open>add\<close> pushes the object onto the list; \<open>remove\<close> looks the object up by reference
  and takes that entry out; \<open>clear\<close> drops every object and the active one.
\<close>

definition add_object :: "fabric_object \<Rightarrow> FabricCanvas \<Rightarrow> FabricCanvas" where
  "add_object obj canvas = canvas\<lparr>fabric_objects := fabric_objects canvas @ [obj]\<rparr>"

fun remove_ref :: "nat \<Rightarrow> fabric_object list \<Rightarrow> fabric_object list" where
  "remove_ref r [] = []"
| "remove_ref r (obj # objs) = (if ref obj = r then objs else obj # remove_ref r objs)"

definition remove_object :: "fabric_object \<Rightarrow> FabricCanvas \<Rightarrow> FabricCanvas" where
  "remove_object obj canvas =
     canvas\<lparr>fabric_objects := remove_ref (ref obj) (fabric_objects canvas)\<rparr>"

definition discardActiveObject :: "FabricCanvas \<Rightarrow> FabricCanvas" where
  "discardActiveObject canvas = canvas\<lparr>activeObject := None\<rparr>"

definition setActiveObject :: "active \<Rightarrow> FabricCanvas \<Rightarrow> FabricCanvas" where
  "setActiveObject a canvas = canvas\<lparr>activeObject := Some a\<rparr>"

definition clear :: "FabricCanvas \<Rightarrow> FabricCanvas" where
  "clear canvas = canvas\<lparr>fabric_objects := [], activeObject := None\<rparr>"

section \<open>Toolbar actions\<close>

definition addRect :: "board \<Rightarrow> board" where
  "addRect b =
     (case fabricCanvasRef b of
        None \<Rightarrow> b
      | Some canvas \<Rightarrow>
          (let rect = \<lparr>ref = next_ref b, shape = Rect 120 120 (color b) 160 100 8 8\<rparr>
           in b\<lparr>fabricCanvasRef := Some (setActiveObject (ActiveObject rect) (add_object rect canvas)),
                next_ref := Suc (next_ref b)\<rparr>))"

definition addCircle :: "board \<Rightarrow> board" where
  "addCircle b =
     (case fabricCanvasRef b of
        None \<Rightarrow> b
      | Some canvas \<Rightarrow>
          (let circle = \<lparr>ref = next_ref b, shape = Circle 160 160 (color b) 60\<rparr>
           in b\<lparr>fabricCanvasRef := Some (setActiveObject (ActiveObject circle) (add_object circle canvas)),
                next_ref := Suc (next_ref b)\<rparr>))"

definition undo :: "board \<Rightarrow> board" where
  "undo b =
     (case fabricCanvasRef b of
        None \<Rightarrow> b
      | Some canvas \<Rightarrow>
          (let objs = fabric_objects canvas
           in if length objs = 0 then b
              else (let lastObj = objs ! (length objs - 1)
                    in b\<lparr>fabricCanvasRef :=
                           Some (discardActiveObject (remove_object lastObj canvas))\<rparr>)))"

definition clearAll :: "board \<Rightarrow> board" where
  "clearAll b =
     (case fabricCanvasRef b of
        None \<Rightarrow> b
      | Some canvas \<Rightarrow> b\<lparr>fabricCanvasRef := Some (clear canvas)\<rparr>)"

section \<open>Pointer handlers\<close>

text \<open>
  The fields of a pointer event that the handlers read (\<open>pressure\<close> is written
  \<open>e_pressure\<close>), and the origin of the overlay's bounding rectangle at the event.
\<close>

record PointerEvent =
  clientX :: real
  clientY :: real
  e_pressure :: real
  timeStamp :: real

record DOMRect =
  rect_left :: real
  rect_top :: real

definition getPos :: "DOMRect \<Rightarrow> PointerEvent \<Rightarrow> point" where
  "getPos rect e = \<lparr>px = clientX e - rect_left rect, py = clientY e - rect_top rect\<rparr>"

text \<open>\<open>e.pressure || 0.5\<close>: zero is falsy.\<close>

definition pressure_or_default :: "PointerEvent \<Rightarrow> real" where
  "pressure_or_default e = (if e_pressure e \<noteq> 0 then e_pressure e else 0.5)"

definition sample :: "point \<Rightarrow> real \<Rightarrow> real \<Rightarrow> Pt" where
  "sample pos pr ts = \<lparr>px = px pos, py = py pos, pressure = pr, pt_t = ts\<rparr>"

text \<open>
  The pointer handlers belong to an effect that returns early while the canvas ref is
  null, so they only run on a board with a canvas.
\<close>

definition onPointerDown :: "DOMRect \<Rightarrow> PointerEvent \<Rightarrow> board \<Rightarrow> board" where
  "onPointerDown rect e b =
     (case fabricCanvasRef b of
        None \<Rightarrow> b
      | Some fabric \<Rightarrow>
          if isPanning b
          then b\<lparr>drawingRef := True, pointsRef := [sample (getPos rect e) 0.5 (timeStamp e)]\<rparr>
          else if tool b = Tool_draw
          then b\<lparr>drawingRef := True,
                 pointsRef := [] @ [sample (getPos rect e) (pressure_or_default e) (timeStamp e)]\<rparr>
          else if tool b = Tool_lasso
          then b\<lparr>drawingRef := True,
                 pointsRef := [] @ [sample (getPos rect e) 0.5 (timeStamp e)]\<rparr>
          else b)"

definition onPointerMove :: "DOMRect \<Rightarrow> PointerEvent \<Rightarrow> board \<Rightarrow> board" where
  "onPointerMove rect e b =
     (case fabricCanvasRef b of
        None \<Rightarrow> b
      | Some fabric \<Rightarrow>
          if \<not> drawingRef b then b
          else if isPanning b
          then (let b1 = (if pointsRef b = [] then b
                          else (let lastPoint = pointsRef b ! (length (pointsRef b) - 1);
                                    deltaX = px (getPos rect e) - px lastPoint;
                                    deltaY = py (getPos rect e) - py lastPoint
                                in b\<lparr>panX := panX b + deltaX, panY := panY b + deltaY\<rparr>))
                in b1\<lparr>pointsRef := [sample (getPos rect e) 0.5 (timeStamp e)]\<rparr>)
          else if tool b = Tool_draw
          then b\<lparr>pointsRef :=
                   pointsRef b @ [sample (getPos rect e) (pressure_or_default e) (timeStamp e)]\<rparr>
          else if tool b = Tool_lasso
          then b\<lparr>pointsRef := pointsRef b @ [sample (getPos rect e) 0.5 (timeStamp e)]\<rparr>
          else b)"

text \<open>
  The options handed to the outline routine \<open>getStroke\<close> of the stroke library, and the
  routine itself as a parameter: it maps \<open>[x, y, pressure]\<close> triples to outline points.
\<close>

record StrokeOptions =
  stroke_size :: real
  stroke_smoothing :: real
  thinning :: real
  streamline :: real
  easing :: "real \<Rightarrow> real"
  simulatePressure :: bool

type_synonym get_stroke = "(real \<times> real \<times> real) list \<Rightarrow> StrokeOptions \<Rightarrow> (real \<times> real) list"

definition stroke_options :: "board \<Rightarrow> StrokeOptions" where
  "stroke_options b =
     \<lparr>stroke_size = width b, stroke_smoothing = smoothing b, thinning = 0.6,
      streamline = 0.4, easing = (\<lambda>t. t), simulatePressure = False\<rparr>"

definition stroke_outline :: "get_stroke \<Rightarrow> board \<Rightarrow> (real \<times> real) list" where
  "stroke_outline getStroke b =
     getStroke (map (\<lambda>p. (px p, py p, pressure p)) (pointsRef b)) (stroke_options b)"

definition finalizeStroke :: "(real \<Rightarrow> nat \<Rightarrow> string) \<Rightarrow> get_stroke \<Rightarrow> board \<Rightarrow> board" where
  "finalizeStroke toFixed getStroke b =
     (case fabricCanvasRef b of
        None \<Rightarrow> b
      | Some fabric \<Rightarrow>
          (let pts = pointsRef b; b1 = b\<lparr>drawingRef := False\<rparr>
           in if length pts < 2 then b1
              else (let stroke = stroke_outline getStroke b
                    in if length stroke = 0 then b1
                       else (let pathData = getSvgPathFromStroke toFixed stroke;
                                 path = \<lparr>ref = next_ref b,
                                         shape = FabricPath pathData (color b) True True\<rparr>
                             in b1\<lparr>fabricCanvasRef := Some (add_object path fabric),
                                   next_ref := Suc (next_ref b)\<rparr>))))"

text \<open>
  \<open>getCenterPoint\<close> is the library's method of an object and is a parameter.
\<close>

definition selectedObjects :: "(fabric_object \<Rightarrow> point) \<Rightarrow> Pt list \<Rightarrow> FabricCanvas \<Rightarrow> fabric_object list" where
  "selectedObjects getCenterPoint pts fabric =
     filter (\<lambda>obj. isPointInPolygon (getCenterPoint obj) pts) (fabric_objects fabric)"

definition finalizeLasso :: "(fabric_object \<Rightarrow> point) \<Rightarrow> board \<Rightarrow> board" where
  "finalizeLasso getCenterPoint b =
     (case fabricCanvasRef b of
        None \<Rightarrow> b
      | Some fabric \<Rightarrow>
          (let pts = pointsRef b; b1 = b\<lparr>drawingRef := False\<rparr>
           in if length pts < 3 then b1
              else (let sel = selectedObjects getCenterPoint pts fabric
                    in if length sel > 0
                       then b1\<lparr>fabricCanvasRef :=
                                 Some (setActiveObject
                                         (if length sel = 1 then ActiveObject (sel ! 0)
                                          else ActiveSelection sel)
                                         (discardActiveObject fabric))\<rparr>
                       else b1)))"

definition onPointerUp ::
  "(real \<Rightarrow> nat \<Rightarrow> string) \<Rightarrow> get_stroke \<Rightarrow> (fabric_object \<Rightarrow> point) \<Rightarrow> board \<Rightarrow> board" where
  "onPointerUp toFixed getStroke getCenterPoint b =
     (case fabricCanvasRef b of
        None \<Rightarrow> b
      | Some fabric \<Rightarrow>
          if isPanning b then b\<lparr>drawingRef := False\<rparr>
          else if tool b = Tool_draw then finalizeStroke toFixed getStroke b
          else if tool b = Tool_lasso then finalizeLasso getCenterPoint b
          else b)"

section \<open>Reference descriptions\<close>

text \<open>
  The path the description of \<open>getSvgPathFromStroke\<close> asks for: one command per point,
  \<open>M\<close> for the first and \<open>L\<close> for the others, then an \<open>L\<close> back to the first point
  and \<open>Z\<close>. A command is its letter, the two coordinates with two decimals, each
  followed by a blank.
\<close>

definition path_command :: "(real \<Rightarrow> nat \<Rightarrow> string) \<Rightarrow> string \<Rightarrow> real \<times> real \<Rightarrow> string" where
  "path_command toFixed c p = c @ toFixed (fst p) 2 @ '' '' @ toFixed (snd p) 2 @ '' ''"

definition closed_path :: "(real \<Rightarrow> nat \<Rightarrow> string) \<Rightarrow> real \<times> real \<Rightarrow> (real \<times> real) list \<Rightarrow> string" where
  "closed_path toFixed p0 rest =
     path_command toFixed ''M'' p0 @ concat (map (path_command toFixed ''L'') rest) @
     path_command toFixed ''L'' p0 @ ''Z''"

text \<open>
  What a toggle may change in one layer: the flag of a layer with the given id is
  negated, every other field and every other layer stays as it is.
\<close>

definition visible_toggled :: "string \<Rightarrow> Layer \<Rightarrow> Layer \<Rightarrow> bool" where
  "visible_toggled ident l l' =
     (layer_id l' = layer_id l \<and> layer_name l' = layer_name l \<and> locked l' = locked l \<and>
      objects l' = objects l \<and>
      visible l' = (if layer_id l = ident then \<not> visible l else visible l))"

definition lock_toggled :: "string \<Rightarrow> Layer \<Rightarrow> Layer \<Rightarrow> bool" where
  "lock_toggled ident l l' =
     (layer_id l' = layer_id l \<and> layer_name l' = layer_name l \<and> visible l' = visible l \<and>
      objects l' = objects l \<and>
      locked l' = (if layer_id l = ident then \<not> locked l else locked l))"

text \<open>No layer record holds drawn content.\<close>

definition objects_empty :: "board \<Rightarrow> bool" where
  "objects_empty b = list_all (\<lambda>l. objects l = []) (layers b)"

text \<open>
  The sample the description of a stroke asks for: position relative to the overlay,
  the event's time stamp, and the event's pressure or 0.5 when that is zero.
\<close>

definition timestamped_sample :: "DOMRect \<Rightarrow> PointerEvent \<Rightarrow> Pt" where
  "timestamped_sample rect e =
     \<lparr>px = clientX e - rect_left rect, py = clientY e - rect_top rect,
      pressure = (if e_pressure e = 0 then 0.5 else e_pressure e), pt_t = timeStamp e\<rparr>"

text \<open>
  Object identities on the canvas are pairwise different and below the next identity to
  be given out.
\<close>

definition fresh_refs :: "board \<Rightarrow> bool" where
  "fresh_refs b =
     (case fabricCanvasRef b of
        None \<Rightarrow> True
      | Some canvas \<Rightarrow>
          distinct (map ref (fabric_objects canvas)) \<and>
          list_all (\<lambda>obj. ref obj < next_ref b) (fabric_objects canvas))"

section \<open>Sample inputs\<close>

text \<open>
  Stand-ins for the library's \<open>getCenterPoint\<close> (the centre of the bounding box given by
  the constructor arguments) and for a lasso gesture along the corners of a rectangle,
  used to run the handlers on concrete boards.
\<close>

definition box_center :: "fabric_object \<Rightarrow> point" where
  "box_center obj =
     (case shape obj of
        Rect l t f w h rx ry \<Rightarrow> \<lparr>px = l + w / 2, py = t + h / 2\<rparr>
      | Circle l t f r \<Rightarrow> \<lparr>px = l + r, py = t + r\<rparr>
      | FabricPath d f s c \<Rightarrow> \<lparr>px = 0, py = 0\<rparr>)"

definition lasso_square :: "real \<Rightarrow> real \<Rightarrow> real \<Rightarrow> real \<Rightarrow> Pt list" where
  "lasso_square x0 y0 x1 y1 =
     [\<lparr>px = x0, py = y0, pressure = 0.5, pt_t = 0\<rparr>, \<lparr>px = x1, py = y0, pressure = 0.5, pt_t = 8\<rparr>,
      \<lparr>px = x1, py = y1, pressure = 0.5, pt_t = 16\<rparr>, \<lparr>px = x0, py = y1, pressure = 0.5, pt_t = 24\<rparr>]"

text \<open>
  Stand-ins for \<open>toFixed\<close> (exact on whole non-negative numbers: the digits, a point and
  as many zeros as decimals asked for) and for \<open>getStroke\<close> (the outline runs through
  the sample positions).
\<close>

definition whole_toFixed :: "real \<Rightarrow> nat \<Rightarrow> string" where
  "whole_toFixed v digits = string_of_nat (nat \<lfloor>v\<rfloor>) @ ''.'' @ replicate digits (CHR ''0'')"

definition sample_positions :: get_stroke where
  "sample_positions pts opts = map (\<lambda>(vx, vy, vp). (vx, vy)) pts"

section \<open>Properties of the lasso geometry\<close>





section \<open>Properties of the path data\<close>

lemma path_step_inner:
  "0 < i \<Longrightarrow> Suc i < length arr \<Longrightarrow>
   path_step toFixed arr acc (i, p) = acc @ path_command toFixed ''L'' p"
  by (cases p) (auto simp add: path_step_def path_command_def Let_def split: prod.splits)

lemma path_step_last:
  "0 < i \<Longrightarrow> Suc i = length arr \<Longrightarrow>
   path_step toFixed arr acc (i, p) =
     acc @ path_command toFixed ''L'' p @ path_command toFixed ''L'' (arr ! 0) @ ''Z''"
  by (cases p) (auto simp add: path_step_def path_command_def Let_def split: prod.splits)

lemma foldl_path_step_tail:
  "0 < i \<Longrightarrow> i + length ps = length arr \<Longrightarrow> ps \<noteq> [] \<Longrightarrow>
   foldl (path_step toFixed arr) acc (zip [i ..< length arr] ps) =
     acc @ concat (map (path_command toFixed ''L'') ps) @
     path_command toFixed ''L'' (arr ! 0) @ ''Z''"
proof (induction ps arbitrary: i acc)
  case Nil
  then show ?case by simp
next
  case (Cons p ps)
  from Cons.prems have lt: "i < length arr" by simp
  then have range: "[i ..< length arr] = i # [Suc i ..< length arr]"
    by (simp add: upt_conv_Cons)
  show ?case
  proof (cases "ps = []")
    case True
    with Cons.prems have "Suc i = length arr" by simp
    with Cons.prems(1) True show ?thesis
      by (simp add: range path_step_last)
  next
    case False
    with Cons.prems have inner: "Suc i < length arr" by (cases ps) simp_all
    from Cons.prems have "Suc i + length ps = length arr" by simp
    from Cons.IH [OF _ this False, of "path_step toFixed arr acc (i, p)"]
    show ?thesis
      using Cons.prems(1) inner by (simp add: range path_step_inner)
  qed
qed

lemma getSvgPathFromStroke_Cons:
  "getSvgPathFromStroke toFixed (p0 # rest) = closed_path toFixed p0 rest"
proof (cases "rest = []")
  case True
  then show ?thesis
    by (cases p0) (simp add: getSvgPathFromStroke_def closed_path_def path_step_def path_command_def Let_def)
next
  case False
  have first: "path_step toFixed (p0 # rest) [] (0, p0) = path_command toFixed ''M'' p0"
    using False by (cases p0) (auto simp add: path_step_def path_command_def Let_def split: prod.splits)
  have range: "[0 ..< length (p0 # rest)] = 0 # [Suc 0 ..< length (p0 # rest)]"
    by (rule upt_conv_Cons) simp
  have "getSvgPathFromStroke toFixed (p0 # rest) =
        foldl (path_step toFixed (p0 # rest)) [] (zip [0 ..< length (p0 # rest)] (p0 # rest))"
    by (simp add: getSvgPathFromStroke_def)
  also have "\<dots> = foldl (path_step toFixed (p0 # rest)) (path_command toFixed ''M'' p0)
                      (zip [Suc 0 ..< length (p0 # rest)] rest)"
    by (subst range) (simp only: zip_Cons_Cons foldl_Cons first)
  also have "\<dots> = path_command toFixed ''M'' p0 @
                    concat (map (path_command toFixed ''L'') rest) @
                    path_command toFixed ''L'' ((p0 # rest) ! 0) @ ''Z''"
    by (rule foldl_path_step_tail) (use False in simp_all)
  finally show ?thesis
    by (simp add: closed_path_def)
qed

text \<open>
  C8: \<open>getSvgPathFromStroke\<close> returns the empty string for the empty point list; for a
  non-empty list it returns the closed path: \<open>M\<close> at the first point, an \<open>L\<close> for each
  later point, a final \<open>L\<close> back to the first point, and \<open>Z\<close>, with the coordinates
  formatted by \<open>toFixed(2)\<close>.
\<close>

theorem getSvgPathFromStroke_closed:
  "getSvgPathFromStroke toFixed points =
     (case points of [] \<Rightarrow> [] | p0 # rest \<Rightarrow> closed_path toFixed p0 rest)"
  by (cases points) (simp_all add: getSvgPathFromStroke_Cons, simp add: getSvgPathFromStroke_def)

section \<open>Properties of the zoom\<close>

lemma zoom_step_range:
  assumes "0.1 \<le> zoom b" and "zoom b \<le> 5"
  shows "0.1 \<le> zoom (zoom_step op b) \<and> zoom (zoom_step op b) \<le> 5"
proof (cases op)
  case (Wheel deltaY)
  with assms show ?thesis
    by (cases "fabricCanvasRef b") (simp_all add: handleWheel_def Let_def max_def min_def)
next
  case ZoomIn
  with assms show ?thesis by (simp add: handleZoomIn_def min_def)
next
  case ZoomOut
  with assms show ?thesis by (simp add: handleZoomOut_def max_def)
next
  case ResetView
  then show ?thesis by (simp add: handleResetView_def)
next
  case FitToCanvas
  with assms show ?thesis
    by (cases "fabricCanvasRef b") (simp_all add: handleFitToCanvas_def)
qed

lemma zoom_run_range:
  "0.1 \<le> zoom b \<Longrightarrow> zoom b \<le> 5 \<Longrightarrow>
   0.1 \<le> zoom (zoom_run ops b) \<and> zoom (zoom_run ops b) \<le> 5"
proof (induction ops arbitrary: b)
  case Nil
  then show ?case by simp
next
  case (Cons op ops)
  from zoom_step_range [OF Cons.prems, of op]
  have "0.1 \<le> zoom (zoom_step op b)" and "zoom (zoom_step op b) \<le> 5" by simp_all
  from Cons.IH [OF this] show ?case by simp
qed

text \<open>
  C4: starting from the zoom 1, every sequence of zoom operations (wheel, zoom in, zoom
  out, reset view, fit to canvas) leaves a zoom between 0.1 and 5.
\<close>

theorem zoom_stays_in_range:
  "zoom b = 1 \<Longrightarrow> 0.1 \<le> zoom (zoom_run ops b) \<and> zoom (zoom_run ops b) \<le> 5"
  by (rule zoom_run_range) simp_all

theorem zoom_stays_in_range_witness:
  "zoom initial_board = 1 \<and>
   zoom (zoom_run [ZoomOut, ZoomOut, ZoomOut, ZoomOut, ZoomOut] initial_board) = 0.1 \<and>
   0.1 \<le> zoom (zoom_run [ZoomOut, ZoomOut, ZoomOut, ZoomOut, ZoomOut] initial_board) \<and>
   zoom (zoom_run [ZoomOut, ZoomOut, ZoomOut, ZoomOut, ZoomOut] initial_board) \<le> 5"
proof -
  have start: "zoom initial_board = 1"
    by (simp add: initial_board_def)
  have run: "zoom (zoom_run [ZoomOut, ZoomOut, ZoomOut, ZoomOut, ZoomOut] initial_board) = 0.1"
    by (simp add: initial_board_def handleZoomOut_def)
  from start run zoom_stays_in_range [OF start, of "[ZoomOut, ZoomOut, ZoomOut, ZoomOut, ZoomOut]"]
  show ?thesis by simp
qed

section \<open>Properties of deleting a layer\<close>

lemma handleLayerDelete_short:
  "length (layers b) \<le> 1 \<Longrightarrow> handleLayerDelete ident b = b"
  by (simp add: handleLayerDelete_def)

lemma handleLayerDelete_layers:
  "1 < length (layers b) \<Longrightarrow>
   layers (handleLayerDelete ident b) = filter (\<lambda>l. layer_id l \<noteq> ident) (layers b)"
  by (simp add: handleLayerDelete_def)

lemma filter_distinct_ids_length:
  "distinct (map layer_id ls) \<Longrightarrow>
   length ls \<le> Suc (length (filter (\<lambda>l. layer_id l \<noteq> ident) ls))"
proof (induction ls)
  case Nil
  then show ?case by simp
next
  case (Cons l ls)
  show ?case
  proof (cases "layer_id l = ident")
    case True
    with Cons.prems have "\<forall>k \<in> set ls. layer_id k \<noteq> ident" by (auto simp add: image_iff)
    then have "filter (\<lambda>l. layer_id l \<noteq> ident) ls = ls" by (simp add: filter_id_conv)
    with True show ?thesis by simp
  next
    case False
    with Cons show ?thesis by simp
  qed
qed

lemma handleLayerDelete_distinct_nonempty:
  assumes "distinct (map layer_id (layers b))" and "layers b \<noteq> []"
  shows "layers (handleLayerDelete ident b) \<noteq> []"
proof (cases "length (layers b) \<le> 1")
  case True
  with assms(2) show ?thesis by (simp add: handleLayerDelete_short)
next
  case False
  then have long: "1 < length (layers b)" by simp
  have "filter (\<lambda>l. layer_id l \<noteq> ident) (layers b) \<noteq> []"
  proof
    assume "filter (\<lambda>l. layer_id l \<noteq> ident) (layers b) = []"
    with filter_distinct_ids_length [OF assms(1), of ident] have "length (layers b) \<le> 1"
      by simp
    with long show False by simp
  qed
  with long show ?thesis by (simp add: handleLayerDelete_layers)
qed

text \<open>
  C3: the layer list is meant never to become empty. Two layers added while \<open>Date.now()\<close>
  returns the same value receive the same id; once the first layer is deleted, deleting
  that id removes both remaining layers, and the list is empty.
\<close>

theorem handleLayerDelete_empties_layers:
  "(case layer_run [LayerAdd 1793577600000, LayerAdd 1793577600000,
                    LayerDelete ''layer-1'', LayerDelete ''layer-1793577600000''] initial_board of
      Inl e \<Rightarrow> None
    | Inr b \<Rightarrow> Some (layers b, activeLayerId b)) = Some ([], ''layer-1793577600000'')"
  by (simp add: initial_board_def handleLayerAdd_def handleLayerDelete_def string_of_nat.simps Let_def)

section \<open>Properties of the layer toggles\<close>

lemma toggle_visible_pointwise:
  "list_all2 (visible_toggled ident) ls
     (map (\<lambda>l. if layer_id l = ident then l\<lparr>visible := \<not> visible l\<rparr> else l) ls)"
  by (induction ls) (simp_all add: visible_toggled_def)

lemma toggle_lock_pointwise:
  "list_all2 (lock_toggled ident) ls
     (map (\<lambda>l. if layer_id l = ident then l\<lparr>locked := \<not> locked l\<rparr> else l) ls)"
  by (induction ls) (simp_all add: lock_toggled_def)

lemma toggle_visible_twice:
  "map (\<lambda>l. if layer_id l = ident then l\<lparr>visible := \<not> visible l\<rparr> else l)
     (map (\<lambda>l. if layer_id l = ident then l\<lparr>visible := \<not> visible l\<rparr> else l) ls) = ls"
  by (induction ls) simp_all

lemma toggle_lock_twice:
  "map (\<lambda>l. if layer_id l = ident then l\<lparr>locked := \<not> locked l\<rparr> else l)
     (map (\<lambda>l. if layer_id l = ident then l\<lparr>locked := \<not> locked l\<rparr> else l) ls) = ls"
  by (induction ls) simp_all

text \<open>
  C10: for every layer list and id, \<open>handleLayerToggleVisible\<close> negates the visible flag of
  the layers with that id and \<open>handleLayerToggleLock\<close> their locked flag; all other
  fields, all other layers, the length and the order of the list stay as they are, and
  the same toggle applied twice gives the original state back.
\<close>

theorem layer_toggles_involutive:
  "list_all2 (visible_toggled ident) (layers b) (layers (handleLayerToggleVisible ident b)) \<and>
   list_all2 (lock_toggled ident) (layers b) (layers (handleLayerToggleLock ident b)) \<and>
   handleLayerToggleVisible ident (handleLayerToggleVisible ident b) = b \<and>
   handleLayerToggleLock ident (handleLayerToggleLock ident b) = b"
  by (simp add: handleLayerToggleVisible_def handleLayerToggleLock_def
      toggle_visible_pointwise toggle_lock_pointwise toggle_visible_twice toggle_lock_twice
      del: map_map)

section \<open>Layer operations and drawn content\<close>

lemma handleLayerReorder_objects:
  assumes "objects_empty b" and "handleLayerReorder fromIndex toIndex b = Inr b'"
  shows "objects_empty b' \<and> fabricCanvasRef b' = fabricCanvasRef b"
proof -
  from assms(2) have inrange: "fromIndex < length (layers b)"
    by (simp add: handleLayerReorder_def split: if_splits)
  let ?rest = "take fromIndex (layers b) @ drop (Suc fromIndex) (layers b)"
  from assms(2) inrange have b': "b' = b\<lparr>layers := take toIndex ?rest @ [layers b ! fromIndex] @ drop toIndex ?rest\<rparr>"
    by (simp add: handleLayerReorder_def Let_def)
  from assms(1) have all: "\<forall>l \<in> set (layers b). objects l = []"
    by (simp add: objects_empty_def list_all_iff)
  have "set ?rest \<subseteq> set (layers b)"
    by (auto dest: in_set_takeD in_set_dropD)
  then have "set (take toIndex ?rest) \<subseteq> set (layers b)" and "set (drop toIndex ?rest) \<subseteq> set (layers b)"
    by (blast dest: in_set_takeD, blast dest: in_set_dropD)
  moreover from inrange have "layers b ! fromIndex \<in> set (layers b)" by simp
  ultimately have "\<forall>l \<in> set (layers b'). objects l = []"
    using all unfolding b' by auto
  then show ?thesis by (simp add: objects_empty_def list_all_iff b')
qed

lemma handleLayerAdd_objects:
  "objects_empty b \<Longrightarrow>
   objects_empty (handleLayerAdd now b) \<and>
   fabricCanvasRef (handleLayerAdd now b) = fabricCanvasRef b"
  by (simp add: objects_empty_def handleLayerAdd_def Let_def)

lemma handleLayerDelete_objects:
  "objects_empty b \<Longrightarrow>
   objects_empty (handleLayerDelete ident b) \<and>
   fabricCanvasRef (handleLayerDelete ident b) = fabricCanvasRef b"
  by (simp add: objects_empty_def handleLayerDelete_def list_all_iff)

lemma handleLayerToggleVisible_objects:
  "objects_empty b \<Longrightarrow>
   objects_empty (handleLayerToggleVisible ident b) \<and>
   fabricCanvasRef (handleLayerToggleVisible ident b) = fabricCanvasRef b"
  by (auto simp add: objects_empty_def handleLayerToggleVisible_def list_all_iff)

lemma handleLayerToggleLock_objects:
  "objects_empty b \<Longrightarrow>
   objects_empty (handleLayerToggleLock ident b) \<and>
   fabricCanvasRef (handleLayerToggleLock ident b) = fabricCanvasRef b"
  by (auto simp add: objects_empty_def handleLayerToggleLock_def list_all_iff)

lemma layer_step_objects:
  assumes "objects_empty b" and "layer_step op b = Inr b'"
  shows "objects_empty b' \<and> fabricCanvasRef b' = fabricCanvasRef b"
proof (cases op)
  case (LayerSelect ident)
  with assms show ?thesis by (auto simp add: objects_empty_def handleLayerSelect_def)
next
  case (LayerAdd now)
  with assms handleLayerAdd_objects [of b now] show ?thesis by auto
next
  case (LayerDelete ident)
  with assms handleLayerDelete_objects [of b ident] show ?thesis by auto
next
  case (LayerToggleVisible ident)
  with assms handleLayerToggleVisible_objects [of b ident] show ?thesis by auto
next
  case (LayerToggleLock ident)
  with assms handleLayerToggleLock_objects [of b ident] show ?thesis by auto
next
  case (LayerReorder fromIndex toIndex)
  with assms show ?thesis by (simp add: handleLayerReorder_objects)
qed

lemma layer_step_error:
  "layer_step op b = Inl e \<Longrightarrow>
   (case op of LayerReorder fromIndex toIndex \<Rightarrow> length (layers b) \<le> fromIndex | _ \<Rightarrow> False)"
  by (cases op) (simp_all add: handleLayerReorder_def Let_def split: if_splits)

text \<open>
  C6: every layer's \<open>objects\<close> field is empty in the initial state, and every layer
  operation (select, add, delete, toggle visible, toggle lock, reorder) keeps it empty
  and leaves the canvas, with its object list, as it was. The only operation without a
  resulting layer list is a reorder whose \<open>fromIndex\<close> is not an index of the list.
\<close>

theorem layer_ops_keep_objects_empty:
  "objects_empty initial_board \<and>
   (objects_empty b \<longrightarrow>
      (case layer_step op b of
         Inr b' \<Rightarrow> objects_empty b' \<and> fabricCanvasRef b' = fabricCanvasRef b
       | Inl e \<Rightarrow> (case op of LayerReorder fromIndex toIndex \<Rightarrow> length (layers b) \<le> fromIndex
                              | _ \<Rightarrow> False)))"
proof -
  have "objects_empty initial_board"
    by (simp add: objects_empty_def initial_board_def)
  moreover have "objects_empty b \<longrightarrow>
      (case layer_step op b of
         Inr b' \<Rightarrow> objects_empty b' \<and> fabricCanvasRef b' = fabricCanvasRef b
       | Inl e \<Rightarrow> (case op of LayerReorder fromIndex toIndex \<Rightarrow> length (layers b) \<le> fromIndex
                              | _ \<Rightarrow> False))"
  proof (cases "layer_step op b")
    case (Inl e)
    from layer_step_error [OF this] Inl show ?thesis by simp
  next
    case (Inr b')
    with layer_step_objects [of b op b'] show ?thesis by simp
  qed
  ultimately show ?thesis by blast
qed

theorem layer_ops_keep_objects_empty_witness:
  "objects_empty (handleLayerAdd 1793577600000 initial_board) \<and>
   (case layer_step (LayerReorder 1 0) (handleLayerAdd 1793577600000 initial_board) of
      Inr b' \<Rightarrow> objects_empty b' \<and>
                map layer_id (layers b') = [''layer-1793577600000'', ''layer-1''] \<and>
                fabricCanvasRef b' = fabricCanvasRef initial_board
    | Inl e \<Rightarrow> False)"
proof -
  have pre: "objects_empty (handleLayerAdd 1793577600000 initial_board)"
    by (simp add: objects_empty_def handleLayerAdd_def initial_board_def Let_def)
  have step: "layer_step (LayerReorder 1 0) (handleLayerAdd 1793577600000 initial_board) =
      Inr ((handleLayerAdd 1793577600000 initial_board)
        \<lparr>layers := [layers (handleLayerAdd 1793577600000 initial_board) ! 1,
                    layers (handleLayerAdd 1793577600000 initial_board) ! 0]\<rparr>)"
    by (simp add: handleLayerReorder_def handleLayerAdd_def initial_board_def Let_def)
  from layer_ops_keep_objects_empty [of "handleLayerAdd 1793577600000 initial_board" "LayerReorder 1 0"]
    pre
  show ?thesis
    unfolding step
    by (simp add: handleLayerAdd_def initial_board_def Let_def string_of_nat.simps)
qed

section \<open>Recorded pointer samples\<close>

lemma sample_draw:
  "sample (getPos rect e) (pressure_or_default e) (timeStamp e) = timestamped_sample rect e"
  by (simp add: sample_def getPos_def pressure_or_default_def timestamped_sample_def)

lemma timestamped_sample_positive:
  "0 \<le> e_pressure e \<Longrightarrow> 0 < pressure (timestamped_sample rect e)"
  by (simp add: timestamped_sample_def)

text \<open>
  C7: with the draw tool and no panning, \<open>onPointerDown\<close> starts the sample list with,
  and \<open>onPointerMove\<close> (while a stroke is being drawn) appends, the record of the
  event: client position minus the overlay's origin, the event's time stamp, and the
  event's pressure, or 0.5 when that is zero. For an event pressure in [0, 1] the stored
  pressure is positive, and so is the pressure of every sample of the list.
\<close>

theorem draw_samples_recorded:
  "fabricCanvasRef b = Some fabric \<Longrightarrow> \<not> isPanning b \<Longrightarrow> tool b = Tool_draw \<Longrightarrow>
   pointsRef (onPointerDown rect e b) = [timestamped_sample rect e] \<and>
   (drawingRef b \<longrightarrow>
      pointsRef (onPointerMove rect e b) = pointsRef b @ [timestamped_sample rect e]) \<and>
   (\<not> drawingRef b \<longrightarrow> onPointerMove rect e b = b) \<and>
   (0 \<le> e_pressure e \<and> e_pressure e \<le> 1 \<longrightarrow>
      0 < pressure (timestamped_sample rect e) \<and>
      (list_all (\<lambda>p. 0 < pressure p) (pointsRef b) \<longrightarrow>
         list_all (\<lambda>p. 0 < pressure p) (pointsRef (onPointerDown rect e b)) \<and>
         list_all (\<lambda>p. 0 < pressure p) (pointsRef (onPointerMove rect e b))))"
  by (simp add: onPointerDown_def onPointerMove_def sample_draw timestamped_sample_positive)

theorem draw_samples_recorded_witness:
  "fabricCanvasRef initial_board = Some \<lparr>fabric_objects = [], activeObject = None\<rparr> \<and>
   \<not> isPanning initial_board \<and> tool initial_board = Tool_draw \<and>
   pointsRef (onPointerDown \<lparr>rect_left = 8, rect_top = 100\<rparr>
      \<lparr>clientX = 20, clientY = 130, e_pressure = 0, timeStamp = 1500\<rparr> initial_board) =
     [\<lparr>px = 12, py = 30, pressure = 0.5, pt_t = 1500\<rparr>] \<and>
   pointsRef (onPointerMove \<lparr>rect_left = 8, rect_top = 100\<rparr>
      \<lparr>clientX = 21, clientY = 132, e_pressure = 0.75, timeStamp = 1508\<rparr>
      (onPointerDown \<lparr>rect_left = 8, rect_top = 100\<rparr>
         \<lparr>clientX = 20, clientY = 130, e_pressure = 0, timeStamp = 1500\<rparr> initial_board)) =
     [\<lparr>px = 12, py = 30, pressure = 0.5, pt_t = 1500\<rparr>,
      \<lparr>px = 13, py = 32, pressure = 0.75, pt_t = 1508\<rparr>]"
proof -
  let ?rect = "\<lparr>rect_left = 8, rect_top = 100\<rparr>"
  let ?down = "\<lparr>clientX = 20, clientY = 130, e_pressure = 0, timeStamp = 1500\<rparr>"
  let ?move = "\<lparr>clientX = 21, clientY = 132, e_pressure = 0.75, timeStamp = 1508\<rparr>"
  have c0: "fabricCanvasRef initial_board = Some \<lparr>fabric_objects = [], activeObject = None\<rparr>"
    and p0: "\<not> isPanning initial_board" and t0: "tool initial_board = Tool_draw"
    by (simp_all add: initial_board_def)
  note down = draw_samples_recorded [OF c0 p0 t0, of ?rect ?down]
  have c1: "fabricCanvasRef (onPointerDown ?rect ?down initial_board) =
              Some \<lparr>fabric_objects = [], activeObject = None\<rparr>"
    and p1: "\<not> isPanning (onPointerDown ?rect ?down initial_board)"
    and t1: "tool (onPointerDown ?rect ?down initial_board) = Tool_draw"
    and d1: "drawingRef (onPointerDown ?rect ?down initial_board)"
    by (simp_all add: initial_board_def onPointerDown_def)
  note move = draw_samples_recorded [OF c1 p1 t1, of ?rect ?move]
  from down move d1 c0 p0 t0 show ?thesis
    by (simp add: timestamped_sample_def)
qed

section \<open>Object identities and undo\<close>

lemma fresh_refs_initial: "fresh_refs initial_board"
  by (simp add: fresh_refs_def initial_board_def)

lemma fresh_refs_add:
  assumes "fresh_refs b" and "fabricCanvasRef b = Some canvas"
  shows "fresh_refs (b\<lparr>fabricCanvasRef := Some (setActiveObject a (add_object \<lparr>ref = next_ref b, shape = s\<rparr> canvas)),
                      next_ref := Suc (next_ref b)\<rparr>)"
  using assms
  by (auto simp add: fresh_refs_def add_object_def setActiveObject_def list_all_iff)

lemma fresh_refs_addRect: "fresh_refs b \<Longrightarrow> fresh_refs (addRect b)"
  by (cases "fabricCanvasRef b") (simp_all add: addRect_def Let_def fresh_refs_add)

lemma fresh_refs_addCircle: "fresh_refs b \<Longrightarrow> fresh_refs (addCircle b)"
  by (cases "fabricCanvasRef b") (simp_all add: addCircle_def Let_def fresh_refs_add)

lemma set_remove_ref: "set (remove_ref r objs) \<subseteq> set objs"
  by (induction objs) auto

lemma distinct_remove_ref: "distinct (map ref objs) \<Longrightarrow> distinct (map ref (remove_ref r objs))"
proof (induction objs)
  case Nil
  then show ?case by simp
next
  case (Cons obj objs)
  from set_remove_ref [of r objs] have "ref ` set (remove_ref r objs) \<subseteq> ref ` set objs"
    by blast
  with Cons show ?case by auto
qed

lemma fresh_refs_undo: "fresh_refs b \<Longrightarrow> fresh_refs (undo b)"
proof (cases "fabricCanvasRef b")
  case None
  assume "fresh_refs b"
  with None show ?thesis by (simp add: undo_def)
next
  case (Some canvas)
  assume "fresh_refs b"
  with Some have d: "distinct (map ref (fabric_objects canvas))"
    and lt: "\<forall>obj \<in> set (fabric_objects canvas). ref obj < next_ref b"
    by (simp_all add: fresh_refs_def list_all_iff)
  from lt set_remove_ref have "\<forall>r. \<forall>obj \<in> set (remove_ref r (fabric_objects canvas)). ref obj < next_ref b"
    by blast
  with Some d show ?thesis
    by (simp add: undo_def Let_def fresh_refs_def remove_object_def discardActiveObject_def
        distinct_remove_ref list_all_iff)
qed

lemma fresh_refs_clearAll: "fresh_refs b \<Longrightarrow> fresh_refs (clearAll b)"
  by (cases "fabricCanvasRef b") (simp_all add: clearAll_def clear_def fresh_refs_def)

lemma fresh_refs_finalizeStroke:
  "fresh_refs b \<Longrightarrow> fresh_refs (finalizeStroke toFixed getStroke b)"
proof (cases "fabricCanvasRef b")
  case None
  assume "fresh_refs b"
  with None show ?thesis by (simp add: finalizeStroke_def)
next
  case (Some fabric)
  assume "fresh_refs b"
  with Some show ?thesis
    by (auto simp add: finalizeStroke_def Let_def fresh_refs_def add_object_def list_all_iff)
qed

lemma fresh_refs_finalizeLasso:
  "fresh_refs b \<Longrightarrow> fresh_refs (finalizeLasso getCenterPoint b)"
proof (cases "fabricCanvasRef b")
  case None
  assume "fresh_refs b"
  with None show ?thesis by (simp add: finalizeLasso_def)
next
  case (Some fabric)
  assume "fresh_refs b"
  with Some show ?thesis
    by (simp add: finalizeLasso_def Let_def fresh_refs_def setActiveObject_def
        discardActiveObject_def)
qed

lemma remove_ref_last:
  "distinct (map ref objs) \<Longrightarrow> objs \<noteq> [] \<Longrightarrow> remove_ref (ref (last objs)) objs = butlast objs"
proof (induction objs)
  case Nil
  then show ?case by simp
next
  case (Cons obj objs)
  show ?case
  proof (cases "objs = []")
    case True
    then show ?thesis by simp
  next
    case False
    then have "last objs \<in> set objs" by simp
    with Cons.prems(1) have "ref obj \<noteq> ref (last objs)" by auto
    with Cons False show ?thesis by simp
  qed
qed

lemma remove_ref_last_index:
  assumes "distinct (map ref objs)" and "objs \<noteq> []"
  shows "remove_ref (ref (objs ! (length objs - 1))) objs = butlast objs"
proof -
  from assms(2) have "objs ! (length objs - 1) = last objs"
    by (simp add: last_conv_nth)
  with remove_ref_last [OF assms] show ?thesis by simp
qed

text \<open>
  C9: on a canvas whose objects are pairwise different objects, \<open>undo\<close> on a non-empty
  object list removes the last object, keeps the earlier ones in order and discards the
  active selection; on the empty object list it changes nothing.
\<close>

theorem undo_removes_last:
  "fabricCanvasRef b = Some canvas \<Longrightarrow> distinct (map ref (fabric_objects canvas)) \<Longrightarrow>
   undo b =
     (if fabric_objects canvas = [] then b
      else b\<lparr>fabricCanvasRef :=
               Some (canvas\<lparr>fabric_objects := butlast (fabric_objects canvas),
                            activeObject := None\<rparr>)\<rparr>)"
proof (cases "fabric_objects canvas = []")
  case True
  assume "fabricCanvasRef b = Some canvas"
  with True show ?thesis by (simp add: undo_def)
next
  case False
  assume canvas: "fabricCanvasRef b = Some canvas"
    and "distinct (map ref (fabric_objects canvas))"
  from remove_ref_last_index [OF this(2) False] canvas False show ?thesis
    by (simp add: undo_def Let_def remove_object_def discardActiveObject_def)
qed

theorem undo_removes_last_witness:
  "fabricCanvasRef (addCircle (addRect initial_board)) =
     Some \<lparr>fabric_objects = [\<lparr>ref = 0, shape = Rect 120 120 ''#3b82f6'' 160 100 8 8\<rparr>,
                              \<lparr>ref = 1, shape = Circle 160 160 ''#3b82f6'' 60\<rparr>],
           activeObject = Some (ActiveObject \<lparr>ref = 1, shape = Circle 160 160 ''#3b82f6'' 60\<rparr>)\<rparr> \<and>
   distinct (map ref [\<lparr>ref = 0, shape = Rect 120 120 ''#3b82f6'' 160 100 8 8\<rparr>,
                      \<lparr>ref = 1, shape = Circle 160 160 ''#3b82f6'' 60\<rparr>]) \<and>
   fabricCanvasRef (undo (addCircle (addRect initial_board))) =
     Some \<lparr>fabric_objects = [\<lparr>ref = 0, shape = Rect 120 120 ''#3b82f6'' 160 100 8 8\<rparr>],
           activeObject = None\<rparr>"
proof -
  have canvas: "fabricCanvasRef (addCircle (addRect initial_board)) =
     Some \<lparr>fabric_objects = [\<lparr>ref = 0, shape = Rect 120 120 ''#3b82f6'' 160 100 8 8\<rparr>,
                              \<lparr>ref = 1, shape = Circle 160 160 ''#3b82f6'' 60\<rparr>],
           activeObject = Some (ActiveObject \<lparr>ref = 1, shape = Circle 160 160 ''#3b82f6'' 60\<rparr>)\<rparr>"
    by (simp add: addCircle_def addRect_def initial_board_def Let_def add_object_def
        setActiveObject_def)
  from undo_removes_last [OF canvas] canvas show ?thesis by simp
qed

section \<open>Finishing a stroke\<close>

text \<open>
  C5: \<open>finalizeStroke\<close> on a sample list of at least two points, whose outline
  \<open>getStroke\<close> of the \<open>[x, y, pressure]\<close> triples of the samples (with the board's
  options) is non-empty, appends exactly one path object to the canvas objects, filled
  with the current colour and with the path data of that outline, and keeps the earlier
  objects; with fewer than two samples or an empty outline the object list stays as it
  was.
\<close>

theorem finalizeStroke_adds_one_path:
  "fabricCanvasRef b = Some fabric \<Longrightarrow>
   fabricCanvasRef (finalizeStroke toFixed getStroke b) =
     Some (let outline =
                 getStroke (map (\<lambda>p. (px p, py p, pressure p)) (pointsRef b))
                   \<lparr>stroke_size = width b, stroke_smoothing = smoothing b, thinning = 0.6,
                    streamline = 0.4, easing = (\<lambda>t. t), simulatePressure = False\<rparr>
           in if 2 \<le> length (pointsRef b) \<and> outline \<noteq> []
              then fabric\<lparr>fabric_objects := fabric_objects fabric @
                     [\<lparr>ref = next_ref b,
                       shape = FabricPath (getSvgPathFromStroke toFixed outline)
                                 (color b) True True\<rparr>]\<rparr>
              else fabric)"
  by (simp add: finalizeStroke_def stroke_outline_def stroke_options_def Let_def
      add_object_def not_less)

theorem finalizeStroke_adds_one_path_witness:
  "fabricCanvasRef (initial_board\<lparr>pointsRef :=
       [\<lparr>px = 12, py = 30, pressure = 1, pt_t = 1500\<rparr>,
        \<lparr>px = 13, py = 32, pressure = 1, pt_t = 1508\<rparr>]\<rparr>) =
     Some \<lparr>fabric_objects = [], activeObject = None\<rparr> \<and>
   fabricCanvasRef (finalizeStroke whole_toFixed sample_positions
       (initial_board\<lparr>pointsRef :=
         [\<lparr>px = 12, py = 30, pressure = 1, pt_t = 1500\<rparr>,
          \<lparr>px = 13, py = 32, pressure = 1, pt_t = 1508\<rparr>]\<rparr>)) =
     Some \<lparr>fabric_objects =
             [\<lparr>ref = 0,
               shape = FabricPath ''M12.00 30.00 L13.00 32.00 L12.00 30.00 Z'' ''#3b82f6''
                         True True\<rparr>],
           activeObject = None\<rparr> \<and>
   fabricCanvasRef (finalizeStroke whole_toFixed (\<lambda>pts opts. [])
       (initial_board\<lparr>pointsRef :=
         [\<lparr>px = 12, py = 30, pressure = 1, pt_t = 1500\<rparr>,
          \<lparr>px = 13, py = 32, pressure = 1, pt_t = 1508\<rparr>]\<rparr>)) =
     Some \<lparr>fabric_objects = [], activeObject = None\<rparr>"
proof -
  let ?b = "initial_board\<lparr>pointsRef :=
       [\<lparr>px = 12, py = 30, pressure = 1, pt_t = 1500\<rparr>,
        \<lparr>px = 13, py = 32, pressure = 1, pt_t = 1508\<rparr>]\<rparr>"
  have canvas: "fabricCanvasRef ?b = Some \<lparr>fabric_objects = [], activeObject = None\<rparr>"
    by (simp add: initial_board_def)
  have samples: "pointsRef ?b =
       [\<lparr>px = 12, py = 30, pressure = 1, pt_t = 1500\<rparr>,
        \<lparr>px = 13, py = 32, pressure = 1, pt_t = 1508\<rparr>]"
    by simp
  have digits: "whole_toFixed 12 2 = ''12.00''" "whole_toFixed 13 2 = ''13.00''"
    "whole_toFixed 30 2 = ''30.00''" "whole_toFixed 32 2 = ''32.00''"
    by (simp_all add: whole_toFixed_def string_of_nat.simps numeral_2_eq_2)
  have path: "getSvgPathFromStroke whole_toFixed [(12, 30), (13, 32)] =
      ''M12.00 30.00 L13.00 32.00 L12.00 30.00 Z''"
    by (simp add: getSvgPathFromStroke_def path_step_def Let_def digits)
  have fields: "next_ref ?b = 0" "color ?b = ''#3b82f6''"
    by (simp_all add: initial_board_def)
  from finalizeStroke_adds_one_path [OF canvas, of whole_toFixed sample_positions]
    finalizeStroke_adds_one_path [OF canvas, of whole_toFixed "\<lambda>pts opts. []"] canvas
  show ?thesis
    unfolding samples by (simp add: sample_positions_def path fields Let_def)
qed

section \<open>Finishing a lasso\<close>

text \<open>
  C1: \<open>finalizeLasso\<close> on at least three lasso points selects exactly the canvas objects
  whose centre point passes \<open>isPointInPolygon\<close> for the lasso: several become one
  \<open>ActiveSelection\<close>, a single one becomes the active object, and with none the canvas
  and its active object stay as they were.
\<close>

theorem finalizeLasso_selects_inside:
  "fabricCanvasRef b = Some fabric \<Longrightarrow> 3 \<le> length (pointsRef b) \<Longrightarrow>
   fabricCanvasRef (finalizeLasso getCenterPoint b) =
     Some (case filter (\<lambda>obj. isPointInPolygon (getCenterPoint obj) (pointsRef b))
                  (fabric_objects fabric) of
             [] \<Rightarrow> fabric
           | [obj] \<Rightarrow> fabric\<lparr>activeObject := Some (ActiveObject obj)\<rparr>
           | obj # obj' # objs \<Rightarrow>
               fabric\<lparr>activeObject := Some (ActiveSelection (obj # obj' # objs))\<rparr>)"
  by (simp add: finalizeLasso_def selectedObjects_def Let_def setActiveObject_def
      discardActiveObject_def not_less split: list.splits)

theorem finalizeLasso_selects_inside_witness:
  "3 \<le> length (lasso_square 150 150 250 200) \<and> 3 \<le> length (lasso_square 100 100 300 300) \<and>
   fabricCanvasRef (finalizeLasso box_center
      ((addCircle (addRect initial_board))\<lparr>tool := Tool_lasso, pointsRef := lasso_square 150 150 250 200\<rparr>)) =
     Some \<lparr>fabric_objects = [\<lparr>ref = 0, shape = Rect 120 120 ''#3b82f6'' 160 100 8 8\<rparr>,
                              \<lparr>ref = 1, shape = Circle 160 160 ''#3b82f6'' 60\<rparr>],
           activeObject = Some (ActiveObject \<lparr>ref = 0, shape = Rect 120 120 ''#3b82f6'' 160 100 8 8\<rparr>)\<rparr> \<and>
   fabricCanvasRef (finalizeLasso box_center
      ((addCircle (addRect initial_board))\<lparr>tool := Tool_lasso, pointsRef := lasso_square 100 100 300 300\<rparr>)) =
     Some \<lparr>fabric_objects = [\<lparr>ref = 0, shape = Rect 120 120 ''#3b82f6'' 160 100 8 8\<rparr>,
                              \<lparr>ref = 1, shape = Circle 160 160 ''#3b82f6'' 60\<rparr>],
           activeObject = Some (ActiveSelection
             [\<lparr>ref = 0, shape = Rect 120 120 ''#3b82f6'' 160 100 8 8\<rparr>,
              \<lparr>ref = 1, shape = Circle 160 160 ''#3b82f6'' 60\<rparr>])\<rparr>"
proof -
  let ?canvas = "\<lparr>fabric_objects = [\<lparr>ref = 0, shape = Rect 120 120 ''#3b82f6'' 160 100 8 8\<rparr>,
                              \<lparr>ref = 1, shape = Circle 160 160 ''#3b82f6'' 60\<rparr>],
           activeObject = Some (ActiveObject \<lparr>ref = 1, shape = Circle 160 160 ''#3b82f6'' 60\<rparr>)\<rparr>"
  have canvas: "fabricCanvasRef ((addCircle (addRect initial_board))\<lparr>tool := Tool_lasso, pointsRef := pts\<rparr>) =
     Some ?canvas" for pts
    by (simp add: addCircle_def addRect_def initial_board_def Let_def add_object_def
        setActiveObject_def)
  have len: "3 \<le> length (pointsRef ((addCircle (addRect initial_board))\<lparr>tool := Tool_lasso,
                 pointsRef := lasso_square x0 y0 x1 y1\<rparr>))" for x0 y0 x1 y1
    by (simp add: lasso_square_def)
  have inside:
    "isPointInPolygon \<lparr>px = 200, py = 170\<rparr> (lasso_square 150 150 250 200)"
    "\<not> isPointInPolygon \<lparr>px = 220, py = 220\<rparr> (lasso_square 150 150 250 200)"
    "isPointInPolygon \<lparr>px = 200, py = 170\<rparr> (lasso_square 100 100 300 300)"
    "isPointInPolygon \<lparr>px = 220, py = 220\<rparr> (lasso_square 100 100 300 300)"
    by (simp_all add: isPointInPolygon_def isPointInPolygon_loop.simps edge_test_def
        lasso_square_def)
  from finalizeLasso_selects_inside [OF canvas len, of box_center 150 150 250 200]
    finalizeLasso_selects_inside [OF canvas len, of box_center 100 100 300 300]
  show ?thesis
    by (simp add: box_center_def inside) (simp add: lasso_square_def)
qed

end
